theory Spec2Isabelle
  imports Main
begin

section \<open>Package logging (src/logging/logger.go)\<close>

subsection \<open>Strings\<close>

text \<open>
  A Go string is represented by the sequence of runes (code points) that UTF-8 decoding
  yields; an invalid byte decodes to U+FFFD. Comparing a string with an ASCII literal
  gives the same answer on the runes as on the bytes.
\<close>

type_synonym rune = nat
type_synonym gostring = "rune list"

definition str :: "string \<Rightarrow> gostring" where
  "str s = map of_char s"

definition MaxASCII :: rune where
  "MaxASCII = 127"

definition MaxLatin1 :: rune where
  "MaxLatin1 = 255"

subsection \<open>What the package takes from outside\<close>

datatype zapcore_Level =
  DebugLevel | InfoLevel | WarnLevel | ErrorLevel | DPanicLevel | PanicLevel | FatalLevel

text \<open>
  \<open>zap.Config\<close>: of the presets \<open>zap.NewDevelopmentConfig()\<close> and
  \<open>zap.NewProductionConfig()\<close> the model keeps the two fields that tell them apart
  and that \<open>NewLogger\<close> sets.
\<close>

record Config =
  Development :: bool
  Level :: zapcore_Level

datatype error = Error string

text \<open>
  The standard library and the logging engine are not part of the package. What the
  package's behaviour depends on is collected in one record:
  \<^item> \<open>To_LowerCase\<close>: \<open>unicode.To(unicode.LowerCase, r)\<close>, the case table, which
    \<open>unicode.ToLower\<close> consults for runes above \<open>MaxASCII\<close> only;
  \<^item> \<open>Build_error\<close>: the error (or \<open>nil\<close>, here \<open>None\<close>) that
    \<open>config.Build()\<close> returns for a configuration;
  \<^item> \<open>environ\<close>: the process environment at the time of the call.
\<close>

record extern =
  To_LowerCase :: "rune \<Rightarrow> rune"
  Build_error :: "Config \<Rightarrow> error option"
  environ :: "gostring \<rightharpoonup> gostring"

text \<open>\<open>unicode.ToLower\<close>: ASCII is handled before the table is consulted.\<close>

definition unicode_ToLower :: "extern \<Rightarrow> rune \<Rightarrow> rune" where
  "unicode_ToLower X r =
     (if r \<le> MaxASCII then (if 65 \<le> r \<and> r \<le> 90 then r + 32 else r)
      else To_LowerCase X r)"

text \<open>\<open>strings.ToLower\<close> maps every rune of the string.\<close>

definition ToLower :: "extern \<Rightarrow> gostring \<Rightarrow> gostring" where
  "ToLower X s = map (unicode_ToLower X) s"

text \<open>\<open>unicode.IsSpace\<close>: the Latin-1 cases, then the White_Space table.\<close>

definition IsSpace :: "rune \<Rightarrow> bool" where
  "IsSpace r =
     (if r \<le> MaxLatin1
      then r = 9 \<or> r = 10 \<or> r = 11 \<or> r = 12 \<or> r = 13 \<or> r = 32 \<or> r = 133 \<or> r = 160
      else r = 5760 \<or> (8192 \<le> r \<and> r \<le> 8202) \<or> r = 8232 \<or> r = 8233 \<or> r = 8239
           \<or> r = 8287 \<or> r = 12288)"

text \<open>\<open>strings.TrimSpace\<close> drops the white space at both ends.\<close>

definition TrimSpace :: "gostring \<Rightarrow> gostring" where
  "TrimSpace s = rev (dropWhile IsSpace (rev (dropWhile IsSpace s)))"

text \<open>The ASCII white space: tab, line feed, vertical tab, form feed, carriage return, space.\<close>

definition asciiSpace :: "rune \<Rightarrow> bool" where
  "asciiSpace r = (r = 9 \<or> r = 10 \<or> r = 11 \<or> r = 12 \<or> r = 13 \<or> r = 32)"

text \<open>\<open>os.Getenv\<close>: the value, or the empty string when the variable is not set.\<close>

definition Getenv :: "extern \<Rightarrow> gostring \<Rightarrow> gostring" where
  "Getenv X key = (case environ X key of None \<Rightarrow> [] | Some v \<Rightarrow> v)"

subsection \<open>stringToZapLevel\<close>

definition stringToZapLevel :: "extern \<Rightarrow> gostring \<Rightarrow> zapcore_Level" where
  "stringToZapLevel X level =
     (let l = ToLower X level in
      if l = str ''debug'' then DebugLevel
      else if l = str ''info'' then InfoLevel
      else if l = str ''warn'' then WarnLevel
      else if l = str ''error'' then ErrorLevel
      else if l = str ''dpanic'' then DPanicLevel
      else if l = str ''panic'' then PanicLevel
      else if l = str ''fatal'' then FatalLevel
      else InfoLevel)"

text \<open>The recognised level names and their levels, as the specification lists them.\<close>

definition levelNames :: "(gostring \<times> zapcore_Level) list" where
  "levelNames =
     [(str ''debug'', DebugLevel), (str ''info'', InfoLevel), (str ''warn'', WarnLevel),
      (str ''error'', ErrorLevel), (str ''dpanic'', DPanicLevel), (str ''panic'', PanicLevel),
      (str ''fatal'', FatalLevel)]"

subsection \<open>Loggers and the package's state\<close>

text \<open>
  \<open>*zap.Logger\<close>: the logger the engine builds from a configuration, or the no-op
  logger of \<open>zap.NewNop()\<close>.
\<close>

datatype Logger = Logger Config | NopLogger

text \<open>\<open>zap.SugaredLogger\<close>, the object a \<open>*zap.SugaredLogger\<close> points to.\<close>

datatype SugaredLogger = SugaredLogger (base: Logger)

text \<open>
  A \<open>*zap.SugaredLogger\<close> is \<open>nil\<close> (\<open>None\<close>) or the address of an object in the
  heap. Two pointers are the same instance when they are the same address.
\<close>

type_synonym ptr = "nat option"

text \<open>
  The state: the allocated \<open>SugaredLogger\<close> objects, by address, and the two package
  variables. \<open>defaultLoggerOnce\<close> is the done flag of the \<open>sync.Once\<close>.
\<close>

record state =
  heap :: "SugaredLogger list"
  defaultLogger :: ptr
  defaultLoggerOnce :: bool

definition init :: state where
  "init = \<lparr>heap = [], defaultLogger = None, defaultLoggerOnce = False\<rparr>"

definition NewDevelopmentConfig :: Config where
  "NewDevelopmentConfig = \<lparr>Development = True, Level = DebugLevel\<rparr>"

definition NewProductionConfig :: Config where
  "NewProductionConfig = \<lparr>Development = False, Level = InfoLevel\<rparr>"

text \<open>\<open>config.Build()\<close>: the logger of the configuration, or the engine's error.\<close>

definition Build :: "extern \<Rightarrow> Config \<Rightarrow> error + Logger" where
  "Build X config =
     (case Build_error X config of None \<Rightarrow> Inr (Logger config) | Some err \<Rightarrow> Inl err)"

definition NewNop :: Logger where
  "NewNop = NopLogger"

text \<open>\<open>logger.Sugar()\<close> allocates a new \<open>SugaredLogger\<close> and returns its address.\<close>

definition Sugar :: "Logger \<Rightarrow> state \<Rightarrow> ptr \<times> state" where
  "Sugar logger st =
     (Some (length (heap st)), st\<lparr>heap := heap st @ [SugaredLogger logger]\<rparr>)"

subsection \<open>NewLogger, NewLoggerFromEnv, DefaultLogger\<close>

text \<open>Lines 42 to 50 of \<open>NewLogger\<close>: the configuration handed to the engine.\<close>

definition NewLogger_config :: "extern \<Rightarrow> bool \<Rightarrow> gostring \<Rightarrow> Config" where
  "NewLogger_config X develop level =
     (let config = (if develop then NewDevelopmentConfig else NewProductionConfig)
      in config\<lparr>Level := stringToZapLevel X level\<rparr>)"

definition NewLogger :: "extern \<Rightarrow> bool \<Rightarrow> gostring \<Rightarrow> state \<Rightarrow> ptr \<times> state" where
  "NewLogger X develop level st =
     (let config = NewLogger_config X develop level;
          logger = (case Build X config of Inl err \<Rightarrow> NewNop | Inr logger \<Rightarrow> logger)
      in Sugar logger st)"

definition NewLoggerFromEnv :: "extern \<Rightarrow> state \<Rightarrow> ptr \<times> state" where
  "NewLoggerFromEnv X st =
     (let develop = (ToLower X (TrimSpace (Getenv X (str ''LOG_MODE''))) = str ''develop'');
          level = Getenv X (str ''LOG_LEVEL'')
      in NewLogger X develop level st)"

text \<open>
  \<open>defaultLoggerOnce.Do(f)\<close>: \<open>f\<close> runs when the flag is not set, and the flag is set
  when \<open>f\<close> has returned.
\<close>

definition Once_Do :: "(state \<Rightarrow> state) \<Rightarrow> state \<Rightarrow> state" where
  "Once_Do f st =
     (if defaultLoggerOnce st then st else (f st)\<lparr>defaultLoggerOnce := True\<rparr>)"

definition DefaultLogger :: "extern \<Rightarrow> state \<Rightarrow> ptr \<times> state" where
  "DefaultLogger X st =
     (let st' = Once_Do (\<lambda>s. case NewLoggerFromEnv X s of
                               (logger, s') \<Rightarrow> s'\<lparr>defaultLogger := logger\<rparr>) st
      in (defaultLogger st', st'))"

subsection \<open>Contexts\<close>

text \<open>
  A context key is an interface value: it is equal to another key when both the dynamic
  type and the value agree. \<open>contextKey\<close> is the package's private type, \<open>stringKey\<close>
  the plain \<open>string\<close> type, \<open>otherKey\<close> the keys of any other type.
\<close>

datatype key = contextKey gostring | stringKey gostring | otherKey nat

text \<open>
  A value stored in a context, again an interface value: the \<open>nil\<close> interface, a
  \<open>*zap.SugaredLogger\<close> (which may be a nil pointer), or a value of another type.
\<close>

datatype any = nil_any | SugaredLogger_ptr ptr | string_any gostring | other_any nat

text \<open>
  The contexts of package \<open>context\<close>: the empty context (\<open>Background\<close>, \<open>TODO\<close>), a
  context made by \<open>WithValue\<close>, and a cancellation context (\<open>WithCancel\<close>,
  \<open>WithDeadline\<close>, \<open>WithTimeout\<close>), which hands lookups to its parent. A
  \<open>context.Context\<close> is an interface: \<open>None\<close> is the nil context.
\<close>

datatype Context = emptyCtx | valueCtx Context key any | cancelCtx Context

fun Value :: "Context \<Rightarrow> key \<Rightarrow> any" where
  "Value emptyCtx k = nil_any"
| "Value (valueCtx parent key val) k = (if key = k then val else Value parent k)"
| "Value (cancelCtx parent) k = Value parent k"

datatype panic = Panic string

definition WithValue :: "Context option \<Rightarrow> key \<Rightarrow> any \<Rightarrow> panic + Context" where
  "WithValue parent key val =
     (case parent of
        None \<Rightarrow> Inl (Panic ''cannot create context from nil parent'')
      | Some p \<Rightarrow> Inr (valueCtx p key val))"

definition loggerKey :: key where
  "loggerKey = contextKey (str ''logger'')"

definition WithLogger :: "Context option \<Rightarrow> ptr \<Rightarrow> panic + Context" where
  "WithLogger ctx logger = WithValue ctx loggerKey (SugaredLogger_ptr logger)"

text \<open>
  \<open>FromContext\<close>: the type assertion succeeds exactly on a \<open>*zap.SugaredLogger\<close>.
  Calling \<open>Value\<close> on the nil context is a nil dereference.
\<close>

definition FromContext :: "extern \<Rightarrow> Context option \<Rightarrow> state \<Rightarrow> (panic + ptr) \<times> state" where
  "FromContext X ctx st =
     (case ctx of
        None \<Rightarrow> (Inl (Panic ''invalid memory address or nil pointer dereference''), st)
      | Some c \<Rightarrow>
          (case Value c loggerKey of
             SugaredLogger_ptr logger \<Rightarrow> (Inr logger, st)
           | _ \<Rightarrow> (case DefaultLogger X st of (logger, st') \<Rightarrow> (Inr logger, st'))))"

subsection \<open>Runs of the package\<close>

text \<open>
  The calls a program can make into the package that read or write its state
  (\<open>WithLogger\<close> has no effect on it), and what each returns: a pointer, or the panic of
  \<open>FromContext\<close> on the nil context.
\<close>

datatype call =
  DefaultLogger_call | NewLogger_call bool gostring | NewLoggerFromEnv_call
  | FromContext_call "Context option"

fun exec :: "extern \<Rightarrow> call \<Rightarrow> state \<Rightarrow> (panic + ptr) \<times> state" where
  "exec X DefaultLogger_call st =
     (case DefaultLogger X st of (logger, st') \<Rightarrow> (Inr logger, st'))"
| "exec X (NewLogger_call develop level) st =
     (case NewLogger X develop level st of (logger, st') \<Rightarrow> (Inr logger, st'))"
| "exec X NewLoggerFromEnv_call st =
     (case NewLoggerFromEnv X st of (logger, st') \<Rightarrow> (Inr logger, st'))"
| "exec X (FromContext_call ctx) st = FromContext X ctx st"

text \<open>
  A run: calls made one after the other, each with the outside world of its moment. It
  gives the results in order and the final state.
\<close>

fun run :: "(extern \<times> call) list \<Rightarrow> state \<Rightarrow> (panic + ptr) list \<times> state" where
  "run [] st = ([], st)"
| "run ((X, c) # cs) st =
     (case exec X c st of
        (r, st1) \<Rightarrow> (case run cs st1 of (rs, st2) \<Rightarrow> (r # rs, st2)))"

text \<open>The calls by which the program itself asks for a new logger.\<close>

fun allocates :: "call \<Rightarrow> bool" where
  "allocates (NewLogger_call develop level) = True"
| "allocates NewLoggerFromEnv_call = True"
| "allocates c = False"

subsection \<open>Goroutines\<close>

text \<open>
  Calls made by several goroutines overlap. Each goroutine is at a point of its call, and
  a step of the process is one step of one goroutine: one access to the shared state.
  The atomic flag and the mutex of \<open>sync.Once\<close> make these accesses sequentially
  consistent. The points follow \<open>DefaultLogger\<close> and \<open>sync.Once.Do\<close>:
  \<^item> \<open>Call\<close>: the call has not started;
  \<^item> \<open>Once_fast\<close>: \<open>Do\<close> is about to test \<open>o.done.Load() == 0\<close>, without the lock;
  \<^item> \<open>Once_Lock\<close>: \<open>doSlow\<close> is about to take \<open>o.m.Lock()\<close>, and waits while another
    goroutine holds the mutex;
  \<^item> \<open>Once_check\<close>: \<open>doSlow\<close> holds the mutex and is about to test the flag again;
  \<^item> \<open>Once_f\<close>: the function passed to \<open>Do\<close> is about to call \<open>NewLoggerFromEnv()\<close>;
  \<^item> \<open>Once_assign\<close>: it is about to assign the result to \<open>defaultLogger\<close>;
  \<^item> \<open>Once_Store\<close>: the deferred \<open>o.done.Store(1)\<close>;
  \<^item> \<open>Once_Unlock\<close>: the deferred \<open>o.m.Unlock()\<close>;
  \<^item> \<open>Return\<close>: \<open>DefaultLogger\<close> is about to read \<open>defaultLogger\<close> and return it;
  \<^item> \<open>Done\<close>: the call has returned this result.
\<close>

datatype pc =
    Call | Once_fast | Once_Lock | Once_check | Once_f | Once_assign ptr
  | Once_Store | Once_Unlock | Return | Done "panic + ptr"

text \<open>
  The process: the shared state, the goroutine that holds the mutex of
  \<open>defaultLoggerOnce\<close> if one does, and for each goroutine its call and its point.
\<close>

record process =
  shared :: state
  mutex :: "nat option"
  goroutines :: "(call \<times> pc) list"

text \<open>
  The first step of a call. \<open>NewLogger\<close> and \<open>NewLoggerFromEnv\<close> touch the shared state
  only to allocate; \<open>FromContext\<close> looks the key up and falls back to \<open>DefaultLogger\<close>.
\<close>

fun enter :: "extern \<Rightarrow> call \<Rightarrow> state \<Rightarrow> pc \<times> state" where
  "enter X DefaultLogger_call st = (Once_fast, st)"
| "enter X (NewLogger_call develop level) st =
     (case NewLogger X develop level st of (logger, st') \<Rightarrow> (Done (Inr logger), st'))"
| "enter X NewLoggerFromEnv_call st =
     (case NewLoggerFromEnv X st of (logger, st') \<Rightarrow> (Done (Inr logger), st'))"
| "enter X (FromContext_call ctx) st =
     (case ctx of
        None \<Rightarrow> (Done (Inl (Panic ''invalid memory address or nil pointer dereference'')), st)
      | Some c \<Rightarrow>
          (case Value c loggerKey of
             SugaredLogger_ptr logger \<Rightarrow> (Done (Inr logger), st)
           | _ \<Rightarrow> (Once_fast, st)))"

text \<open>
  One step of goroutine \<open>i\<close>: the new point, shared state and mutex, or \<open>None\<close> when
  the goroutine cannot move (it waits for the mutex, or it has returned).
\<close>

fun goroutine_step ::
  "extern \<Rightarrow> nat \<Rightarrow> call \<Rightarrow> pc \<Rightarrow> state \<Rightarrow> nat option \<Rightarrow> (pc \<times> state \<times> nat option) option" where
  "goroutine_step X i c Call st m = (case enter X c st of (pc', st') \<Rightarrow> Some (pc', st', m))"
| "goroutine_step X i c Once_fast st m =
     Some (if defaultLoggerOnce st then Return else Once_Lock, st, m)"
| "goroutine_step X i c Once_Lock st m =
     (case m of None \<Rightarrow> Some (Once_check, st, Some i) | Some j \<Rightarrow> None)"
| "goroutine_step X i c Once_check st m =
     Some (if defaultLoggerOnce st then Once_Unlock else Once_f, st, m)"
| "goroutine_step X i c Once_f st m =
     (case NewLoggerFromEnv X st of (logger, st') \<Rightarrow> Some (Once_assign logger, st', m))"
| "goroutine_step X i c (Once_assign logger) st m =
     Some (Once_Store, st\<lparr>defaultLogger := logger\<rparr>, m)"
| "goroutine_step X i c Once_Store st m =
     Some (Once_Unlock, st\<lparr>defaultLoggerOnce := True\<rparr>, m)"
| "goroutine_step X i c Once_Unlock st m = Some (Return, st, None)"
| "goroutine_step X i c Return st m = Some (Done (Inr (defaultLogger st)), st, m)"
| "goroutine_step X i c (Done r) st m = None"

definition step :: "extern \<Rightarrow> nat \<Rightarrow> process \<Rightarrow> process" where
  "step X i P =
     (if i < length (goroutines P)
      then (case goroutines P ! i of
              (c, pc) \<Rightarrow>
                (case goroutine_step X i c pc (shared P) (mutex P) of
                   None \<Rightarrow> P
                 | Some (pc', st', m') \<Rightarrow>
                     \<lparr>shared = st', mutex = m', goroutines = (goroutines P)[i := (c, pc')]\<rparr>))
      else P)"

text \<open>
  A schedule says which goroutine moves next, and what the outside world is at that
  moment. Any list is a schedule: a goroutine that cannot move leaves the process as it is.
\<close>

fun schedule :: "(extern \<times> nat) list \<Rightarrow> process \<Rightarrow> process" where
  "schedule [] P = P"
| "schedule ((X, i) # s) P = schedule s (step X i P)"

text \<open>The process in which the calls \<open>cs\<close> are about to start, one goroutine each.\<close>

definition spawn :: "state \<Rightarrow> call list \<Rightarrow> process" where
  "spawn st cs = \<lparr>shared = st, mutex = None, goroutines = map (\<lambda>c. (c, Call)) cs\<rparr>"
















text \<open>
  A concrete outside world for evaluating examples: a case table that leaves the runes
  above ASCII alone, an engine that builds every configuration, an empty environment.
\<close>

definition extern0 :: extern where
  "extern0 = \<lparr>To_LowerCase = (\<lambda>r. r), Build_error = (\<lambda>c. None), environ = Map.empty\<rparr>"

text \<open>The same with an engine that fails on every configuration.\<close>

definition extern_fail :: extern where
  "extern_fail = extern0\<lparr>Build_error := (\<lambda>c. Some (Error ''sink''))\<rparr>"

text \<open>
  The states the package can be in: before the first call of \<open>DefaultLogger\<close> the
  variable is \<open>nil\<close>; after it, the variable is the address of an allocated object.
\<close>

definition wf_state :: "state \<Rightarrow> bool" where
  "wf_state st =
     (if defaultLoggerOnce st
      then (case defaultLogger st of None \<Rightarrow> False | Some a \<Rightarrow> a < length (heap st))
      else defaultLogger st = None)"

section \<open>Properties\<close>

subsection \<open>Auxiliary facts\<close>

lemma ToLower_ascii_any_table:
  "list_all (\<lambda>r. r \<le> MaxASCII) s \<Longrightarrow> ToLower X s = ToLower Y s"
  by (induction s) (simp_all add: ToLower_def unicode_ToLower_def)

lemma NewLogger_result:
  "NewLogger X develop level st =
     (Some (length (heap st)),
      st\<lparr>heap := heap st @
         [SugaredLogger (case Build_error X (NewLogger_config X develop level) of
                           None \<Rightarrow> Logger (NewLogger_config X develop level)
                         | Some err \<Rightarrow> NopLogger)]\<rparr>)"
  by (simp add: NewLogger_def Sugar_def Build_def NewNop_def Let_def split: option.split)

lemma NewLogger_config_eq:
  "NewLogger_config X develop level =
     \<lparr>Development = develop, Level = stringToZapLevel X level\<rparr>"
  by (simp add: NewLogger_config_def NewDevelopmentConfig_def NewProductionConfig_def)

lemma NewLoggerFromEnv_alloc:
  "\<exists>obj. NewLoggerFromEnv X st = (Some (length (heap st)), st\<lparr>heap := heap st @ [obj]\<rparr>)"
  unfolding NewLoggerFromEnv_def NewLogger_result Let_def by (rule exI) (rule refl)

lemma DefaultLogger_done:
  "defaultLoggerOnce st \<Longrightarrow> DefaultLogger X st = (defaultLogger st, st)"
  by (simp add: DefaultLogger_def Once_Do_def)

lemma DefaultLogger_first:
  assumes "\<not> defaultLoggerOnce st"
  shows "DefaultLogger X st =
           (Some (length (heap st)),
            (snd (NewLoggerFromEnv X st))\<lparr>defaultLogger := Some (length (heap st)),
                                           defaultLoggerOnce := True\<rparr>)"
proof -
  obtain obj where
    "NewLoggerFromEnv X st = (Some (length (heap st)), st\<lparr>heap := heap st @ [obj]\<rparr>)"
    using NewLoggerFromEnv_alloc by blast
  with assms show ?thesis
    by (simp add: DefaultLogger_def Once_Do_def)
qed

lemma wf_state_init: "wf_state init"
  by (simp add: wf_state_def init_def)

lemma NewLogger_wf: "wf_state st \<Longrightarrow> wf_state (snd (NewLogger X develop level st))"
  by (auto simp: NewLogger_result wf_state_def split: option.splits)

lemma DefaultLogger_non_nil:
  assumes "wf_state st"
  shows "\<exists>a. fst (DefaultLogger X st) = Some a \<and> a < length (heap (snd (DefaultLogger X st)))"
proof (cases "defaultLoggerOnce st")
  case True
  with assms show ?thesis
    by (auto simp: DefaultLogger_done wf_state_def split: option.splits)
next
  case False
  obtain obj where
    "NewLoggerFromEnv X st = (Some (length (heap st)), st\<lparr>heap := heap st @ [obj]\<rparr>)"
    using NewLoggerFromEnv_alloc by blast
  with False show ?thesis
    by (simp add: DefaultLogger_first)
qed

lemma DefaultLogger_wf: "wf_state st \<Longrightarrow> wf_state (snd (DefaultLogger X st))"
proof (cases "defaultLoggerOnce st")
  case True
  assume "wf_state st"
  with True show ?thesis by (simp add: DefaultLogger_done)
next
  case False
  obtain obj where
    "NewLoggerFromEnv X st = (Some (length (heap st)), st\<lparr>heap := heap st @ [obj]\<rparr>)"
    using NewLoggerFromEnv_alloc by blast
  with False show ?thesis
    by (simp add: DefaultLogger_first wf_state_def)
qed

lemma FromContext_wf:
  "wf_state st \<Longrightarrow> wf_state (snd (FromContext X ctx st))"
  using DefaultLogger_wf [of st X]
  by (auto simp: FromContext_def split: option.splits any.splits prod.splits)

lemma NewLoggerFromEnv_result:
  "NewLoggerFromEnv X st =
     NewLogger X (ToLower X (TrimSpace (Getenv X (str ''LOG_MODE''))) = str ''develop'')
       (Getenv X (str ''LOG_LEVEL'')) st"
  by (simp add: NewLoggerFromEnv_def)

lemma DefaultLogger_cases:
  "(defaultLoggerOnce st \<and> DefaultLogger X st = (defaultLogger st, st))
   \<or> (\<not> defaultLoggerOnce st \<and>
       (\<exists>obj. DefaultLogger X st =
          (Some (length (heap st)),
           st\<lparr>heap := heap st @ [obj], defaultLogger := Some (length (heap st)),
              defaultLoggerOnce := True\<rparr>)))"
proof (cases "defaultLoggerOnce st")
  case True
  then show ?thesis by (simp add: DefaultLogger_done)
next
  case False
  obtain obj where
    "NewLoggerFromEnv X st = (Some (length (heap st)), st\<lparr>heap := heap st @ [obj]\<rparr>)"
    using NewLoggerFromEnv_alloc by blast
  with False show ?thesis by (simp add: DefaultLogger_first) (rule exI, rule refl)
qed

lemma NewLoggerFromEnv_wf: "wf_state st \<Longrightarrow> wf_state (snd (NewLoggerFromEnv X st))"
  by (simp add: NewLoggerFromEnv_result NewLogger_wf)

lemma FromContext_state:
  "snd (FromContext X ctx st) = st \<or> snd (FromContext X ctx st) = snd (DefaultLogger X st)"
proof (cases ctx)
  case None
  then show ?thesis by (simp add: FromContext_def)
next
  case (Some c)
  then show ?thesis
    by (cases "Value c loggerKey") (simp_all add: FromContext_def split: prod.split)
qed

lemma DefaultLogger_heap:
  "length (heap (snd (DefaultLogger X st))) =
     length (heap st)
     + (if defaultLoggerOnce (snd (DefaultLogger X st)) \<and> \<not> defaultLoggerOnce st then 1 else 0)"
  using DefaultLogger_cases [of st X] by auto

lemma NewLogger_snd_alloc:
  "\<exists>obj. snd (NewLogger X develop level st) = st\<lparr>heap := heap st @ [obj]\<rparr>"
  unfolding NewLogger_result snd_conv by (rule exI) (rule refl)

lemma exec_state:
  "snd (exec X c st) = st \<and> \<not> allocates c
   \<or> snd (exec X c st) = snd (DefaultLogger X st) \<and> \<not> allocates c
   \<or> (\<exists>obj. snd (exec X c st) = st\<lparr>heap := heap st @ [obj]\<rparr>) \<and> allocates c"
proof (cases c)
  case DefaultLogger_call
  then show ?thesis by (simp split: prod.split)
next
  case (NewLogger_call d l)
  with NewLogger_snd_alloc [of X d l st] show ?thesis
    by (simp add: case_prod_unfold)
next
  case NewLoggerFromEnv_call
  with NewLogger_snd_alloc [of X _ _ st] show ?thesis
    by (simp add: NewLoggerFromEnv_result case_prod_unfold)
next
  case (FromContext_call ctx)
  with FromContext_state [of X ctx st] show ?thesis by auto
qed

lemma exec_once_keeps:
  assumes "defaultLoggerOnce st" and "exec X c st = (r, st1)"
  shows "defaultLogger st1 = defaultLogger st \<and> defaultLoggerOnce st1"
proof -
  from assms(2) have "snd (exec X c st) = st1" by simp
  with exec_state [of X c st] assms(1) show ?thesis
    by (auto simp: DefaultLogger_done)
qed

lemma exec_wf:
  assumes "wf_state st" and "exec X c st = (r, st1)"
  shows "wf_state st1"
proof (cases c)
  case DefaultLogger_call
  with assms DefaultLogger_wf [of st X] show ?thesis by (auto split: prod.splits)
next
  case (NewLogger_call d l)
  with assms NewLogger_wf [of st X d l] show ?thesis by (auto split: prod.splits)
next
  case NewLoggerFromEnv_call
  with assms NewLoggerFromEnv_wf [of st X] show ?thesis by (auto split: prod.splits)
next
  case (FromContext_call ctx)
  with assms FromContext_wf [of st X ctx] show ?thesis by auto
qed

lemma exec_heap:
  assumes "exec X c st = (r, st1)"
  shows "length (heap st1) =
           length (heap st) + (if allocates c then 1 else 0)
           + (if defaultLoggerOnce st1 \<and> \<not> defaultLoggerOnce st then 1 else 0)"
proof -
  from assms have "snd (exec X c st) = st1" by simp
  with exec_state [of X c st] DefaultLogger_heap [of X st] show ?thesis
    by auto
qed

lemma exec_DefaultLogger_result:
  assumes "wf_state st" and "exec X DefaultLogger_call st = (r, st1)"
  shows "defaultLoggerOnce st1 \<and> r = Inr (defaultLogger st1)"
  using assms DefaultLogger_cases [of st X] by auto

lemma run_once_keeps:
  "defaultLoggerOnce st \<Longrightarrow> run cs st = (rs, st') \<Longrightarrow>
     defaultLogger st' = defaultLogger st \<and> defaultLoggerOnce st'"
proof (induction cs arbitrary: st rs)
  case Nil
  then show ?case by simp
next
  case (Cons xc cs)
  obtain X c where xc: "xc = (X, c)" by (cases xc)
  obtain r st1 where e: "exec X c st = (r, st1)" by (cases "exec X c st")
  obtain rs1 st2 where r1: "run cs st1 = (rs1, st2)" by (cases "run cs st1")
  from Cons.prems(2) xc e r1 have "st2 = st'" by simp
  with r1 have r1': "run cs st1 = (rs1, st')" by simp
  from exec_once_keeps [OF Cons.prems(1) e]
  have k1: "defaultLogger st1 = defaultLogger st" and o1: "defaultLoggerOnce st1" by simp_all
  from Cons.IH [OF o1 r1'] k1 show ?case by simp
qed

lemma run_wf:
  "wf_state st \<Longrightarrow> run cs st = (rs, st') \<Longrightarrow> wf_state st'"
proof (induction cs arbitrary: st rs)
  case Nil
  then show ?case by simp
next
  case (Cons xc cs)
  obtain X c where xc: "xc = (X, c)" by (cases xc)
  obtain r st1 where e: "exec X c st = (r, st1)" by (cases "exec X c st")
  obtain rs1 st2 where r1: "run cs st1 = (rs1, st2)" by (cases "run cs st1")
  from Cons.prems(2) xc e r1 have "st2 = st'" by simp
  with r1 have r1': "run cs st1 = (rs1, st')" by simp
  from Cons.IH [OF exec_wf [OF Cons.prems(1) e] r1'] show ?case .
qed

lemma run_heap:
  "run cs st = (rs, st') \<Longrightarrow>
     length (heap st') =
       length (heap st) + length (filter (\<lambda>xc. allocates (snd xc)) cs)
       + (if defaultLoggerOnce st' \<and> \<not> defaultLoggerOnce st then 1 else 0)"
proof (induction cs arbitrary: st rs)
  case Nil
  then show ?case by simp
next
  case (Cons xc cs)
  obtain X c where xc: "xc = (X, c)" by (cases xc)
  obtain r st1 where e: "exec X c st = (r, st1)" by (cases "exec X c st")
  obtain rs1 st2 where r1: "run cs st1 = (rs1, st2)" by (cases "run cs st1")
  from Cons.prems xc e r1 have "st2 = st'" by simp
  with r1 have r1': "run cs st1 = (rs1, st')" by simp
  note h1 = exec_heap [OF e] and h2 = Cons.IH [OF r1']
  have mono1: "defaultLoggerOnce st \<Longrightarrow> defaultLoggerOnce st1"
    using exec_once_keeps [OF _ e] by simp
  have mono2: "defaultLoggerOnce st1 \<Longrightarrow> defaultLoggerOnce st'"
    using run_once_keeps [OF _ r1'] by simp
  show ?case
  proof (cases "defaultLoggerOnce st")
    case True
    with mono1 mono2 h1 h2 show ?thesis by (simp add: xc)
  next
    case False
    show ?thesis
    proof (cases "defaultLoggerOnce st1")
      case True
      with False mono2 h1 h2 show ?thesis by (simp add: xc)
    next
      case st1_not: False
      with False h1 h2 show ?thesis by (simp add: xc)
    qed
  qed
qed

lemma run_results:
  "wf_state st \<Longrightarrow> run cs st = (rs, st') \<Longrightarrow> i < length cs \<Longrightarrow>
     snd (cs ! i) = DefaultLogger_call \<Longrightarrow>
     defaultLoggerOnce st' \<and> rs ! i = Inr (defaultLogger st')"
proof (induction cs arbitrary: st rs i)
  case Nil
  then show ?case by simp
next
  case (Cons xc cs)
  obtain X c where xc: "xc = (X, c)" by (cases xc)
  obtain r st1 where e: "exec X c st = (r, st1)" by (cases "exec X c st")
  obtain rs1 st2 where r1: "run cs st1 = (rs1, st2)" by (cases "run cs st1")
  from Cons.prems(2) xc e r1 have "st2 = st'" and rs: "rs = r # rs1" by simp_all
  with r1 have r1': "run cs st1 = (rs1, st')" by simp
  have wf1: "wf_state st1" by (rule exec_wf [OF Cons.prems(1) e])
  show ?case
  proof (cases i)
    case 0
    with Cons.prems(4) xc have "c = DefaultLogger_call" by simp
    with e have "exec X DefaultLogger_call st = (r, st1)" by simp
    from exec_DefaultLogger_result [OF Cons.prems(1) this]
    have "defaultLoggerOnce st1" and "r = Inr (defaultLogger st1)" by simp_all
    with run_once_keeps [OF _ r1'] show ?thesis by (simp add: 0 rs)
  next
    case (Suc j)
    with Cons.prems(3,4) have "j < length cs" and "snd (cs ! j) = DefaultLogger_call" by simp_all
    from Cons.IH [OF wf1 r1' this] show ?thesis by (simp add: Suc rs)
  qed
qed

lemma stringToZapLevel_not_info:
  "stringToZapLevel X s \<noteq> InfoLevel \<Longrightarrow> \<exists>l. (ToLower X s, l) \<in> set levelNames"
  by (auto simp: stringToZapLevel_def levelNames_def Let_def split: if_splits)

lemma asciiSpace_lower: "asciiSpace r \<Longrightarrow> unicode_ToLower X r = r"
  by (auto simp: asciiSpace_def unicode_ToLower_def MaxASCII_def)

lemma hd_ToLower: "s \<noteq> [] \<Longrightarrow> hd (ToLower X s) = unicode_ToLower X (hd s)"
  by (simp add: ToLower_def hd_map)

lemma last_ToLower: "s \<noteq> [] \<Longrightarrow> last (ToLower X s) = unicode_ToLower X (last s)"
  by (simp add: ToLower_def last_map)

lemma level_name_no_space:
  "(n, l) \<in> set levelNames \<Longrightarrow> \<not> asciiSpace (hd n) \<and> \<not> asciiSpace (last n)"
  by (auto simp: levelNames_def str_def asciiSpace_def)

subsection \<open>The default logger\<close>

text \<open>
  Calls made one after the other, each run to its end before the next starts: every
  call of \<open>DefaultLogger\<close> returns the address the variable holds at the end, and the
  default construction allocates one object.
\<close>

lemma sequential_run_same_instance:
  assumes "wf_state st" and "run cs st = (rs, st')"
  shows "(\<forall>i<length cs. snd (cs ! i) = DefaultLogger_call \<longrightarrow>
            (\<exists>a. rs ! i = Inr (Some a) \<and> defaultLogger st' = Some a \<and> a < length (heap st')))
       \<and> length (heap st') =
           length (heap st) + length (filter (\<lambda>xc. allocates (snd xc)) cs)
           + (if defaultLoggerOnce st' \<and> \<not> defaultLoggerOnce st then 1 else 0)
       \<and> (if defaultLoggerOnce st
          then DefaultLogger X st = (defaultLogger st, st)
          else DefaultLogger X st =
                 (fst (NewLoggerFromEnv X st),
                  (snd (NewLoggerFromEnv X st))\<lparr>defaultLogger := fst (NewLoggerFromEnv X st),
                                                 defaultLoggerOnce := True\<rparr>))"
proof -
  have wf': "wf_state st'" by (rule run_wf [OF assms])
  have same: "\<exists>a. rs ! i = Inr (Some a) \<and> defaultLogger st' = Some a \<and> a < length (heap st')"
    if "i < length cs" and "snd (cs ! i) = DefaultLogger_call" for i
  proof -
    from run_results [OF assms that]
    have once: "defaultLoggerOnce st'" and res: "rs ! i = Inr (defaultLogger st')" by simp_all
    from wf' once obtain a where "defaultLogger st' = Some a" and "a < length (heap st')"
      by (auto simp: wf_state_def split: option.splits)
    with res show ?thesis by simp
  qed
  have step: "if defaultLoggerOnce st
          then DefaultLogger X st = (defaultLogger st, st)
          else DefaultLogger X st =
                 (fst (NewLoggerFromEnv X st),
                  (snd (NewLoggerFromEnv X st))\<lparr>defaultLogger := fst (NewLoggerFromEnv X st),
                                                 defaultLoggerOnce := True\<rparr>)"
    by (simp add: DefaultLogger_def Once_Do_def case_prod_unfold)
  from same run_heap [OF assms(2)] step show ?thesis by blast
qed
































lemma solo_DefaultLogger:
  "schedule (map (Pair X) [0, 0, 0, 0, 0, 0, 0, 0, 0]) (spawn st [DefaultLogger_call])
     = \<lparr>shared = snd (DefaultLogger X st), mutex = None,
        goroutines = [(DefaultLogger_call, Done (Inr (fst (DefaultLogger X st))))]\<rparr>"
  by (cases "defaultLoggerOnce st")
     (simp_all add: step_def spawn_def DefaultLogger_def Once_Do_def case_prod_unfold)





subsection \<open>Level resolution\<close>

text \<open>
  Claim C3. Level resolution is a total function of the string: when the lower-cased
  input is one of the seven names \<open>debug\<close>, \<open>info\<close>, \<open>warn\<close>, \<open>error\<close>, \<open>dpanic\<close>,
  \<open>panic\<close>, \<open>fatal\<close> the result is the level of that name, and for every other input,
  the empty string included, it is \<open>info\<close>. The names are pairwise different, so the
  level of a name is unique. The result type has no error value.
\<close>

theorem stringToZapLevel_table:
  "stringToZapLevel X s =
     (case map_of levelNames (ToLower X s) of Some l \<Rightarrow> l | None \<Rightarrow> InfoLevel)
   \<and> distinct (map fst levelNames)"
  by (simp add: stringToZapLevel_def levelNames_def Let_def str_def)

theorem stringToZapLevel_table_witness:
  "stringToZapLevel extern0 (str ''DPanic'') = DPanicLevel
   \<and> stringToZapLevel extern0 (str ''verbose'') = InfoLevel
   \<and> stringToZapLevel extern0 [] = InfoLevel"
  using stringToZapLevel_table [of extern0 "str ''DPanic''"]
    stringToZapLevel_table [of extern0 "str ''verbose''"]
    stringToZapLevel_table [of extern0 "[]"]
  by (simp add: levelNames_def ToLower_def unicode_ToLower_def MaxASCII_def str_def)

text \<open>
  Claim C4, as stated: a level string that equals a recognised name after trimming white
  space and folding case resolves to that level. It does not: \<open>stringToZapLevel\<close> folds
  the case and never trims. The string \<open>" WARN "\<close> trims and folds to \<open>warn\<close>, and
  resolves to \<open>info\<close>.
\<close>

theorem trimmed_level_counterexample:
  "map_of levelNames (ToLower extern0 (TrimSpace (str '' WARN ''))) = Some WarnLevel
   \<and> stringToZapLevel extern0 (str '' WARN '') = InfoLevel"
  by (simp add: levelNames_def TrimSpace_def IsSpace_def MaxLatin1_def stringToZapLevel_def
      ToLower_def unicode_ToLower_def MaxASCII_def str_def)

text \<open>
  Claim C4, amended. Level parsing is not trimmed: every level string that begins or ends
  with an ASCII white space character resolves to \<open>info\<close>, also when its trimmed,
  case-folded form is a recognised level name.
\<close>

theorem padded_level_is_info:
  assumes "s \<noteq> []" and "asciiSpace (hd s) \<or> asciiSpace (last s)"
  shows "stringToZapLevel X s = InfoLevel"
proof (rule ccontr)
  assume "stringToZapLevel X s \<noteq> InfoLevel"
  then obtain l where mem: "(ToLower X s, l) \<in> set levelNames"
    using stringToZapLevel_not_info by blast
  have "hd (ToLower X s) = unicode_ToLower X (hd s)"
    and "last (ToLower X s) = unicode_ToLower X (last s)"
    using assms(1) by (simp_all add: hd_ToLower last_ToLower)
  with assms(2) have "asciiSpace (hd (ToLower X s)) \<or> asciiSpace (last (ToLower X s))"
    by (auto simp: asciiSpace_lower)
  with level_name_no_space [OF mem] show False by blast
qed

theorem padded_level_is_info_witness:
  "str ''fatal '' \<noteq> [] \<and> asciiSpace (last (str ''fatal ''))
   \<and> stringToZapLevel extern0 (str ''fatal '') = InfoLevel"
  using padded_level_is_info [of "str ''fatal ''" extern0]
  by (simp add: str_def asciiSpace_def)

subsection \<open>Construction\<close>

text \<open>
  Claim C5. \<open>NewLogger\<close> never returns \<open>nil\<close> and never propagates an error: for every
  \<open>develop\<close> and \<open>level\<close> it returns the address of a newly allocated object, and when
  \<open>config.Build\<close> returns an error for the resolved configuration that object is the
  no-op logger.
\<close>

theorem NewLogger_nop_on_error:
  "fst (NewLogger X develop level st) = Some (length (heap st))
   \<and> length (heap st) < length (heap (snd (NewLogger X develop level st)))
   \<and> (Build_error X (NewLogger_config X develop level) \<noteq> None \<longrightarrow>
        NewLogger X develop level st =
          (Some (length (heap st)), st\<lparr>heap := heap st @ [SugaredLogger NopLogger]\<rparr>))"
  by (auto simp: NewLogger_result)

theorem NewLogger_nop_on_error_witness:
  "Build_error extern_fail (NewLogger_config extern_fail True (str ''debug'')) \<noteq> None
   \<and> NewLogger extern_fail True (str ''debug'') init
       = (Some 0, init\<lparr>heap := [SugaredLogger NopLogger]\<rparr>)"
  using NewLogger_nop_on_error [of extern_fail True "str ''debug''" init]
  by (simp add: extern_fail_def init_def)

text \<open>
  Claim C7. \<open>NewLoggerFromEnv\<close> is \<open>NewLogger\<close> called with \<open>develop\<close> true exactly
  when the value of \<open>LOG_MODE\<close>, trimmed and lower-cased, is \<open>develop\<close> (an unset
  variable reads as the empty string), and with the value of \<open>LOG_LEVEL\<close> as it is. The
  configuration handed to the engine is the development one in the first case and the
  production one otherwise, at the level the unchanged string resolves to.
\<close>

theorem NewLoggerFromEnv_mode:
  "(let develop = (ToLower X (TrimSpace (Getenv X (str ''LOG_MODE''))) = str ''develop'');
        level = Getenv X (str ''LOG_LEVEL'');
        config = \<lparr>Development = develop, Level = stringToZapLevel X level\<rparr>
    in NewLoggerFromEnv X st = NewLogger X develop level st
     \<and> NewLogger_config X develop level = config
     \<and> snd (NewLoggerFromEnv X st) =
         st\<lparr>heap := heap st @
           [SugaredLogger (case Build_error X config of
                             None \<Rightarrow> Logger config | Some err \<Rightarrow> NopLogger)]\<rparr>)"
  by (simp add: NewLoggerFromEnv_def NewLogger_result NewLogger_config_eq Let_def
      cong: option.case_cong)

theorem NewLoggerFromEnv_mode_witness:
  "snd (NewLoggerFromEnv
          (extern0\<lparr>environ := [str ''LOG_MODE'' \<mapsto> str '' Develop '',
                                str ''LOG_LEVEL'' \<mapsto> str ''WARN'']\<rparr>) init)
     = init\<lparr>heap := [SugaredLogger (Logger \<lparr>Development = True, Level = WarnLevel\<rparr>)]\<rparr>
   \<and> snd (NewLoggerFromEnv
          (extern0\<lparr>environ := [str ''LOG_MODE'' \<mapsto> str ''developer'']\<rparr>) init)
     = init\<lparr>heap := [SugaredLogger (Logger \<lparr>Development = False, Level = InfoLevel\<rparr>)]\<rparr>
   \<and> snd (NewLoggerFromEnv (extern0\<lparr>environ := [str ''LOG_LEVEL'' \<mapsto> str ''WARN'']\<rparr>) init)
     = init\<lparr>heap := [SugaredLogger (Logger \<lparr>Development = False, Level = WarnLevel\<rparr>)]\<rparr>"
  using NewLoggerFromEnv_mode
      [of "extern0\<lparr>environ := [str ''LOG_MODE'' \<mapsto> str '' Develop '',
                                 str ''LOG_LEVEL'' \<mapsto> str ''WARN'']\<rparr>" init]
    NewLoggerFromEnv_mode [of "extern0\<lparr>environ := [str ''LOG_MODE'' \<mapsto> str ''developer'']\<rparr>" init]
    NewLoggerFromEnv_mode [of "extern0\<lparr>environ := [str ''LOG_LEVEL'' \<mapsto> str ''WARN'']\<rparr>" init]
  by (simp add: Let_def extern0_def init_def Getenv_def TrimSpace_def IsSpace_def MaxLatin1_def
      NewLogger_result NewLogger_config_eq stringToZapLevel_def ToLower_def unicode_ToLower_def
      MaxASCII_def str_def)

subsection \<open>Context binding\<close>

text \<open>
  Claim C2. Round trip: for every context that is not \<open>nil\<close> and every logger pointer
  \<open>L\<close>, \<open>WithLogger\<close> returns a context, and \<open>FromContext\<close> on that context returns
  exactly \<open>L\<close>, without touching the default logger.
\<close>

theorem FromContext_WithLogger_roundtrip:
  "\<exists>c. WithLogger (Some ctx) L = Inr c \<and> FromContext X (Some c) st = (Inr L, st)"
  by (simp add: WithLogger_def WithValue_def FromContext_def)

text \<open>
  Claim C6. Fallback on retrieval: when a context that is not \<open>nil\<close> holds no
  \<open>*zap.SugaredLogger\<close> under the package's key (nothing is bound there, or the value
  bound there has another type), \<open>FromContext\<close> returns what \<open>DefaultLogger\<close> returns,
  as a result and not as a panic, and leaves the state \<open>DefaultLogger\<close> leaves.
\<close>

theorem FromContext_fallback:
  assumes "\<forall>p. Value ctx loggerKey \<noteq> SugaredLogger_ptr p"
  shows "FromContext X (Some ctx) st =
           (Inr (fst (DefaultLogger X st)), snd (DefaultLogger X st))"
  using assms
  by (cases "Value ctx loggerKey") (simp_all add: FromContext_def split: prod.split)

theorem FromContext_fallback_witness:
  "(\<forall>p. Value (cancelCtx (valueCtx emptyCtx loggerKey (string_any (str ''x'')))) loggerKey
           \<noteq> SugaredLogger_ptr p)
   \<and> FromContext extern0
         (Some (cancelCtx (valueCtx emptyCtx loggerKey (string_any (str ''x''))))) init
       = (Inr (fst (DefaultLogger extern0 init)), snd (DefaultLogger extern0 init))
   \<and> FromContext extern0 (Some emptyCtx) init
       = (Inr (fst (DefaultLogger extern0 init)), snd (DefaultLogger extern0 init))"
  using FromContext_fallback
      [of "cancelCtx (valueCtx emptyCtx loggerKey (string_any (str ''x'')))" extern0 init]
    FromContext_fallback [of emptyCtx extern0 init]
  by simp

text \<open>
  Claim C8. \<open>WithLogger\<close> on the \<open>nil\<close> context panics, returning neither a context nor
  an error value; on every other context it returns the derived context that binds the
  logger under the package's key.
\<close>

theorem WithLogger_nil_panics:
  "WithLogger None L = Inl (Panic ''cannot create context from nil parent'')
   \<and> WithLogger (Some ctx) L = Inr (valueCtx ctx loggerKey (SugaredLogger_ptr L))"
  by (simp add: WithLogger_def WithValue_def)

text \<open>
  Claim C9. Key non-interference: the plain string \<open>"logger"\<close> is a different key from
  the package's key. Storing any value under any other key changes nothing for
  \<open>FromContext\<close>: it does not overwrite a binding made by \<open>WithLogger\<close>, and the value
  is not returned. What \<open>FromContext\<close> returns depends on the context only through the
  value found under the package's key.
\<close>

theorem FromContext_key_noninterference:
  "stringKey (str ''logger'') \<noteq> loggerKey
   \<and> (k \<noteq> loggerKey \<longrightarrow>
        WithValue (Some ctx) k v = Inr (valueCtx ctx k v)
        \<and> FromContext X (Some (valueCtx ctx k v)) st = FromContext X (Some ctx) st
        \<and> FromContext X (Some (valueCtx (valueCtx ctx loggerKey (SugaredLogger_ptr L)) k v)) st
            = (Inr L, st))
   \<and> (Value c1 loggerKey = Value c2 loggerKey \<longrightarrow>
        FromContext X (Some c1) st = FromContext X (Some c2) st)"
  by (simp add: loggerKey_def WithValue_def FromContext_def)

theorem FromContext_key_noninterference_witness:
  "stringKey (str ''logger'') \<noteq> loggerKey
   \<and> FromContext extern0
         (Some (valueCtx (valueCtx emptyCtx loggerKey (SugaredLogger_ptr (Some 0)))
                  (stringKey (str ''logger'')) (string_any (str ''shadow'')))) init
       = (Inr (Some 0), init)
   \<and> FromContext extern0
         (Some (valueCtx emptyCtx (stringKey (str ''logger'')) (SugaredLogger_ptr (Some 7)))) init
       = FromContext extern0 (Some emptyCtx) init"
  using FromContext_key_noninterference
      [of "stringKey (str ''logger'')" emptyCtx "string_any (str ''shadow'')" extern0 init
        "Some 0" emptyCtx emptyCtx]
    FromContext_key_noninterference
      [of "stringKey (str ''logger'')" emptyCtx "SugaredLogger_ptr (Some 7)" extern0 init
        None emptyCtx emptyCtx]
  by simp

text \<open>
  Claim C10. Attaching a \<open>nil\<close> logger bypasses the fallback: for every context that is
  not \<open>nil\<close>, \<open>FromContext\<close> on the context made by \<open>WithLogger\<close> with the \<open>nil\<close>
  pointer returns \<open>nil\<close>, since the type assertion succeeds on a typed \<open>nil\<close>, and
  leaves the state alone; \<open>DefaultLogger\<close> in the same state returns a pointer that is
  not \<open>nil\<close>.
\<close>

theorem FromContext_nil_logger:
  assumes "wf_state st"
  shows "WithLogger (Some ctx) None = Inr (valueCtx ctx loggerKey (SugaredLogger_ptr None))
       \<and> FromContext X (Some (valueCtx ctx loggerKey (SugaredLogger_ptr None))) st
           = (Inr None, st)
       \<and> fst (DefaultLogger X st) \<noteq> None"
  using DefaultLogger_non_nil [OF assms, of X]
  by (auto simp: WithLogger_def WithValue_def FromContext_def)

theorem FromContext_nil_logger_witness:
  "wf_state init
   \<and> FromContext extern0 (Some (valueCtx emptyCtx loggerKey (SugaredLogger_ptr None))) init
       = (Inr None, init)
   \<and> fst (DefaultLogger extern0 init) \<noteq> None"
  using FromContext_nil_logger [of init emptyCtx extern0]
  by (simp add: wf_state_init)

end
